theory Spec2Isabelle
  imports Main
begin

section \<open>Requests, sessions, responses\<close>

text \<open>
  The front end of the integration is one Express application, built by the function that
  \<^verbatim>\<open>src/lib/frontend/app.js\<close> exports. The file registers, in order, global middleware,
  routes and error middleware; what the application does with a request is decided by that
  order. The model keeps the order as a list of layers and runs a request through it.
\<close>

datatype http_method = GET | HEAD | OPTIONS | POST | PUT | DELETE | PATCH

text \<open>
  A member of \<^verbatim>\<open>req.query\<close>: a string, or what the query parser builds from repeated and
  bracketed keys (an array, an object). An absent member (\<^verbatim>\<open>undefined\<close>) is \<open>None\<close>.
\<close>

datatype qvalue = QString string | QArray "qvalue list" | QObject "(string \<times> qvalue) list"

text \<open>JavaScript truthiness of such a member: only \<^verbatim>\<open>undefined\<close> and the empty string are falsy.\<close>

fun truthy :: "qvalue option \<Rightarrow> bool" where
  "truthy None = False"
| "truthy (Some (QString s)) = (s \<noteq> [])"
| "truthy (Some (QArray xs)) = True"
| "truthy (Some (QObject kvs)) = True"

text \<open>
  The request as the layers of this file read it. The path is the list of its segments
  (\<^verbatim>\<open>/jira/events/installed\<close> is \<open>[''jira'', ''events'', ''installed'']\<close>), as the router
  compares it. \<open>csrfToken\<close> is the anti-forgery token the request submits, if any;
  \<open>payloadHost\<close> is the tenant host of a lifecycle payload.
\<close>

record request =
  httpMethod :: http_method
  path :: "string list"
  xdm_e :: "qvalue option"
  csrfToken :: "string option"
  payloadHost :: string

text \<open>
  The cookie session (\<^verbatim>\<open>req.session\<close>): the tenant host, the anti-forgery secret, the
  OAuth grant, and the transient state of an OAuth handshake.
\<close>

record session =
  jiraHost :: "qvalue option"
  csrfSecret :: "string option"
  githubToken :: "string option"
  oauthState :: "string option"

datatype principal = GitHubUser string | TrackerTenant string | NoPrincipal

text \<open>
  What a request carries from layer to layer and a handler may change: the session, the
  principal a trust check attached, and \<^verbatim>\<open>res.locals\<close>.
\<close>

record reqctx =
  session :: session
  principal :: principal
  locals :: "(string \<times> string) list"

text \<open>
  A value passed to \<^verbatim>\<open>next(err)\<close> or thrown, by its \<^verbatim>\<open>message\<close> as a property key (for a
  message that is not a string, the string it converts to).
\<close>

datatype jserror = Error (message: string)

text \<open>
  The argument of \<^verbatim>\<open>res.status\<close>: a number, or a member that an object literal inherits
  from \<^verbatim>\<open>Object.prototype\<close> (a function, or the prototype itself) when a lookup by key
  finds one.
\<close>

datatype status = Code nat | Inherited string

datatype response = Render status string | Redirect string | Body status string

text \<open>
  What one handler does with \<^verbatim>\<open>(req, res, next)\<close>: it calls \<^verbatim>\<open>next()\<close>, it calls
  \<^verbatim>\<open>next(err)\<close> (or throws, which the router turns into \<^verbatim>\<open>next(err)\<close>), it sends a
  response, or it returns having done neither.
\<close>

datatype hres = CallNext | CallNextErr jserror | Responded response | Stalled

text \<open>
  How a run through a list of layers ends: it falls off the end of the list, with no error or
  with one (at the end of the whole application Express then answers by itself: its default
  reply, a 404 for most requests, or the raw error), a response was sent, or the request is
  left without an answer.
\<close>

datatype outcome = Falls "jserror option" | Sent response | Hanging

section \<open>The environment and the collaborators\<close>

text \<open>
  The process environment the file reads, and the maintenance flag, which
  \<^verbatim>\<open>isMaintenanceMode()\<close> of \<^verbatim>\<open>../config/env\<close> returns.
\<close>

record env =
  NODE_ENV :: "string option"
  EXCEPTION_DEBUG_MODE :: "string option"
  isMaintenanceMode :: bool

text \<open>The functions the file registers: its own, and the ones it requires from elsewhere.\<close>

datatype handler =
    SentryRequestHandler | BodyParserUrlencoded | BodyParserJson | CookieSession | LogMiddleware
  | ExpressStatic string
  | JiraHostSession
  | GithubClientMiddleware
  | Api
  | GetJiraConnect
  | MaintenanceCheck
  | CsrfProtection
  | GetMaintenance
  | CheckGithubAuth
  | GetGitHubSetup | PostGitHubSetup
  | GetGitHubConfiguration | PostGitHubConfiguration
  | ListGitHubInstallations | GetGitHubSubscriptions | DeleteGitHubSubscription
  | VerifyJiraMiddleware
  | GetJiraConfiguration | DeleteJiraConfiguration | RetrySync
  | JiraAuthenticate
  | PostJiraDisable | PostJiraEnable | PostJiraInstall | PostJiraUninstall
  | RootRedirect
  | Boom
  | AddSentryContext | SentryErrorHandler
  | OauthLogin | OauthCallback
  | CatchErrors

text \<open>
  Everything the file takes from other modules is a parameter of the model:
  \<^item> \<open>behaviour\<close>: what a required handler does with a request and its context;
  \<^item> \<open>errBehaviour\<close>: the same for a required error middleware, given the error;
  \<^item> \<open>csrfVerify\<close>, \<open>csrfFresh\<close>, \<open>csrfFailure\<close>: the anti-forgery library's token check
    (secret, token), the secret it stores in a session that has none, and the error it
    passes on when the check fails;
  \<^item> \<open>getAuthenticated\<close>: the \<^verbatim>\<open>external_url\<close> the GitHub client returns for the app
    (\<open>Inr\<close>), or the error the call fails with (\<open>Inl\<close>).
\<close>

record collab =
  behaviour :: "handler \<Rightarrow> request \<Rightarrow> reqctx \<Rightarrow> hres \<times> reqctx"
  errBehaviour :: "handler \<Rightarrow> jserror \<Rightarrow> request \<Rightarrow> reqctx \<Rightarrow> hres \<times> reqctx"
  csrfVerify :: "string \<Rightarrow> string \<Rightarrow> bool"
  csrfFresh :: string
  csrfFailure :: jserror
  getAuthenticated :: "reqctx \<Rightarrow> jserror + string"

section \<open>The handlers the file defines\<close>

text \<open>The options the file passes to \<^verbatim>\<open>./github-oauth\<close>.\<close>

definition loginURI :: string where
  "loginURI = ''/github/login''"

definition callbackURI :: string where
  "callbackURI = ''/github/callback''"

text \<open>
  \<^verbatim>\<open>if (req.query.xdm_e) { req.session.jiraHost = req.query.xdm_e; } next();\<close>
\<close>

definition jiraHostSession :: "request \<Rightarrow> reqctx \<Rightarrow> reqctx" where
  "jiraHostSession r st =
     (if truthy (xdm_e r) then st\<lparr>session := (session st)\<lparr>jiraHost := xdm_e r\<rparr>\<rparr> else st)"

text \<open>
  \<^verbatim>\<open>csrf(process.env.NODE_ENV === 'test' ? { ignoreMethods: [...] } : undefined)\<close>: the
  methods the guard lets through unchecked. Without options the library ignores GET, HEAD and
  OPTIONS.
\<close>

definition csurfDefaultIgnoreMethods :: "http_method list" where
  "csurfDefaultIgnoreMethods = [GET, HEAD, OPTIONS]"

definition ignoreMethods :: "env \<Rightarrow> http_method list" where
  "ignoreMethods E =
     (if NODE_ENV E = Some ''test'' then [GET, HEAD, OPTIONS, POST, PUT]
      else csurfDefaultIgnoreMethods)"

text \<open>
  The guard itself: it takes the secret from the session (storing a fresh one when the
  session has none) and, unless the method is ignored, verifies the submitted token against it.
\<close>

definition sessionSecret :: "collab \<Rightarrow> reqctx \<Rightarrow> string" where
  "sessionSecret K st = (case csrfSecret (session st) of None \<Rightarrow> csrfFresh K | Some s \<Rightarrow> s)"

definition tokenVerified :: "collab \<Rightarrow> request \<Rightarrow> reqctx \<Rightarrow> bool" where
  "tokenVerified K r st =
     (case csrfToken r of None \<Rightarrow> False | Some t \<Rightarrow> csrfVerify K (sessionSecret K st) t)"

definition csrfProtection :: "collab \<Rightarrow> env \<Rightarrow> request \<Rightarrow> reqctx \<Rightarrow> hres \<times> reqctx" where
  "csrfProtection K E r st =
     (let st' = st\<lparr>session := (session st)\<lparr>csrfSecret := Some (sessionSecret K st)\<rparr>\<rparr>
      in if httpMethod r \<notin> set (ignoreMethods E) \<and> \<not> tokenVerified K r st
         then (CallNextErr (csrfFailure K), st')
         else (CallNext, st'))"

text \<open>
  \<^verbatim>\<open>(req, res, next) => (isMaintenanceMode() ? getMaintenance(req, res) : next())\<close>: the
  maintenance handler is called without \<^verbatim>\<open>next\<close>. Its \<^verbatim>\<open>next\<close> is undefined, so a
  handler that calls it throws a TypeError, which the router turns into \<^verbatim>\<open>next(err)\<close>.
\<close>

definition nextIsNotAFunction :: jserror where
  "nextIsNotAFunction = Error ''next is not a function''"

fun withoutNext :: "hres \<times> reqctx \<Rightarrow> hres \<times> reqctx" where
  "withoutNext (CallNext, st) = (CallNextErr nextIsNotAFunction, st)"
| "withoutNext (res, st) = (res, st)"

definition maintenanceCheck :: "collab \<Rightarrow> env \<Rightarrow> request \<Rightarrow> reqctx \<Rightarrow> hres \<times> reqctx" where
  "maintenanceCheck K E r st =
     (if isMaintenanceMode E then withoutNext (behaviour K GetMaintenance r st)
      else (CallNext, st))"

text \<open>
  The root route awaits the GitHub client and redirects to the app's external URL. When the
  call fails, the error goes to the error middleware.
\<close>

definition rootRedirect :: "collab \<Rightarrow> reqctx \<Rightarrow> hres" where
  "rootRedirect K st =
     (case getAuthenticated K st of
        Inr url \<Rightarrow> Responded (Redirect url)
      | Inl err \<Rightarrow> CallNextErr err)"

text \<open>
  \<^verbatim>\<open>'frontend boom'.nopenope()\<close> throws a TypeError (the wording of its message is the
  engine's).
\<close>

definition boom :: hres where
  "boom = CallNextErr (Error ''frontend boom.nopenope is not a function'')"

text \<open>
  The central error handler. \<^verbatim>\<open>errorCodes[err.message]\<close> is a property lookup on an object
  literal: it finds the three keys the literal has, and for any other key what the object
  inherits from \<^verbatim>\<open>Object.prototype\<close>.
\<close>

definition errorCodes :: "(string \<times> nat) list" where
  "errorCodes = [(''Unauthorized'', 401), (''Forbidden'', 403), (''Not Found'', 404)]"

definition objectPrototype :: "string list" where
  "objectPrototype =
     [''constructor'', ''hasOwnProperty'', ''isPrototypeOf'', ''propertyIsEnumerable'',
      ''toLocaleString'', ''toString'', ''valueOf'', ''__proto__'',
      ''__defineGetter__'', ''__defineSetter__'', ''__lookupGetter__'', ''__lookupSetter__'']"

definition errorCodesGet :: "string \<Rightarrow> status option" where
  "errorCodesGet key =
     (case map_of errorCodes key of
        Some n \<Rightarrow> Some (Code n)
      | None \<Rightarrow> if key \<in> set objectPrototype then Some (Inherited key) else None)"

text \<open>\<^verbatim>\<open>errorCodes[err.message] || 400\<close>\<close>

definition statusFor :: "jserror \<Rightarrow> status" where
  "statusFor err =
     (case errorCodesGet (message err) of
        Some (Code n) \<Rightarrow> if n = 0 then Code 400 else Code n
      | Some (Inherited k) \<Rightarrow> Inherited k
      | None \<Rightarrow> Code 400)"

text \<open>
  \<^verbatim>\<open>res.status(..).render('github-error.hbs', ..)\<close>. With a number as status the page is
  sent. With an inherited member as status the head of the response cannot be written
  (\<^verbatim>\<open>ERR_HTTP_INVALID_STATUS_CODE\<close>): no page is sent and that error is passed on.
\<close>

definition invalidStatusCode :: jserror where
  "invalidStatusCode = Error ''Invalid status code''"

definition catchErrors :: "env \<Rightarrow> jserror \<Rightarrow> hres" where
  "catchErrors E err =
     (if NODE_ENV E = Some ''development'' then CallNextErr err
      else (case statusFor err of
              Code n \<Rightarrow> Responded (Render (Code n) ''github-error.hbs'')
            | Inherited k \<Rightarrow> CallNextErr invalidStatusCode))"

text \<open>\<^verbatim>\<open>addSentryContext\<close> tags the reporting scope and passes the error on.\<close>

definition addSentryContext :: "jserror \<Rightarrow> hres" where
  "addSentryContext err = CallNextErr err"

section \<open>Calling a handler\<close>

fun invoke :: "collab \<Rightarrow> env \<Rightarrow> handler \<Rightarrow> request \<Rightarrow> reqctx \<Rightarrow> hres \<times> reqctx" where
  "invoke K E JiraHostSession r st = (CallNext, jiraHostSession r st)"
| "invoke K E MaintenanceCheck r st = maintenanceCheck K E r st"
| "invoke K E CsrfProtection r st = csrfProtection K E r st"
| "invoke K E RootRedirect r st = (rootRedirect K st, st)"
| "invoke K E Boom r st = (boom, st)"
| "invoke K E h r st = behaviour K h r st"

fun invokeErr :: "collab \<Rightarrow> env \<Rightarrow> handler \<Rightarrow> jserror \<Rightarrow> request \<Rightarrow> reqctx \<Rightarrow> hres \<times> reqctx" where
  "invokeErr K E AddSentryContext err r st = (addSentryContext err, st)"
| "invokeErr K E CatchErrors err r st = (catchErrors E err, st)"
| "invokeErr K E h err r st = errBehaviour K h err r st"

section \<open>The router\<close>

text \<open>
  A layer is \<^verbatim>\<open>app.use([mount,] fn)\<close>, a route \<^verbatim>\<open>app.METHOD(path, fn, ...)\<close>, or
  \<^verbatim>\<open>app.use(fn)\<close> with a four-argument function, which the router calls only while an
  error is pending.
\<close>

datatype seg = Lit string | Param string

datatype layer =
    Use "string list" handler
  | Route http_method "seg list" "handler list"
  | UseError handler

text \<open>
  The router compares paths without regard to the case of letters (the application leaves
  case-sensitive routing off) and tolerates a trailing slash, which the list of segments
  does not show.
\<close>

definition toLower :: "char \<Rightarrow> char" where
  "toLower c =
     (case map_of (zip ''ABCDEFGHIJKLMNOPQRSTUVWXYZ'' ''abcdefghijklmnopqrstuvwxyz'') c of
        Some d \<Rightarrow> d
      | None \<Rightarrow> c)"

definition foldCase :: "string \<Rightarrow> string" where
  "foldCase s = map toLower s"

definition sameSegment :: "string \<Rightarrow> string \<Rightarrow> bool" where
  "sameSegment a b = (foldCase a = foldCase b)"

fun mounted :: "string list \<Rightarrow> string list \<Rightarrow> bool" where
  "mounted [] xs = True"
| "mounted (p # ps) [] = False"
| "mounted (p # ps) (x # xs) = (sameSegment p x \<and> mounted ps xs)"

fun matches :: "seg list \<Rightarrow> string list \<Rightarrow> bool" where
  "matches [] [] = True"
| "matches (Lit s # ps) (x # xs) = (sameSegment s x \<and> matches ps xs)"
| "matches (Param n # ps) (x # xs) = matches ps xs"
| "matches [] (x # xs) = False"
| "matches (p # ps) [] = False"

text \<open>A route registered for GET also serves HEAD.\<close>

definition handlesMethod :: "http_method \<Rightarrow> http_method \<Rightarrow> bool" where
  "handlesMethod routeMethod m = (m = routeMethod \<or> (m = HEAD \<and> routeMethod = GET))"

text \<open>Whether a layer is entered for a request while no error is pending.\<close>

fun fires :: "layer \<Rightarrow> request \<Rightarrow> bool" where
  "fires (Use mount h) r = mounted mount (path r)"
| "fires (Route m pat hs) r = (handlesMethod m (httpMethod r) \<and> matches pat (path r))"
| "fires (UseError h) r = False"

fun handlersOf :: "layer \<Rightarrow> handler list" where
  "handlersOf (Use mount h) = [h]"
| "handlersOf (Route m pat hs) = hs"
| "handlersOf (UseError h) = [h]"

type_synonym trace = "(handler \<times> hres) list"

text \<open>
  The handlers of one layer, in order: each runs only if the one before it called
  \<^verbatim>\<open>next()\<close>. The trace records every handler called and what it did.
\<close>

fun chain :: "collab \<Rightarrow> env \<Rightarrow> handler list \<Rightarrow> request \<Rightarrow> reqctx \<Rightarrow> trace \<times> hres \<times> reqctx" where
  "chain K E [] r st = ([], CallNext, st)"
| "chain K E (h # hs) r st =
     (case invoke K E h r st of
        (CallNext, st') \<Rightarrow>
          (case chain K E hs r st' of (tr, res, st'') \<Rightarrow> ((h, CallNext) # tr, res, st''))
      | (res, st') \<Rightarrow> ([(h, res)], res, st'))"

fun settle :: "hres \<Rightarrow> outcome" where
  "settle CallNext = Falls None"
| "settle (CallNextErr e) = Falls (Some e)"
| "settle (Responded p) = Sent p"
| "settle Stalled = Hanging"

text \<open>One layer, with no error pending (\<open>None\<close>) or with one.\<close>

fun step :: "collab \<Rightarrow> env \<Rightarrow> layer \<Rightarrow> request \<Rightarrow> jserror option \<Rightarrow> reqctx \<Rightarrow> trace \<times> outcome \<times> reqctx" where
  "step K E (UseError h) r (Some e) st =
     (case invokeErr K E h e r st of (res, st') \<Rightarrow> ([(h, res)], settle res, st'))"
| "step K E (UseError h) r None st = ([], Falls None, st)"
| "step K E l r (Some e) st = ([], Falls (Some e), st)"
| "step K E l r None st =
     (if fires l r
      then (case chain K E (handlersOf l) r st of (tr, res, st') \<Rightarrow> (tr, settle res, st'))
      else ([], Falls None, st))"

fun run :: "collab \<Rightarrow> env \<Rightarrow> layer list \<Rightarrow> request \<Rightarrow> jserror option \<Rightarrow> reqctx \<Rightarrow> trace \<times> outcome \<times> reqctx" where
  "run K E [] r pending st = ([], Falls pending, st)"
| "run K E (l # ls) r pending st =
     (case step K E l r pending st of
        (tr, Falls pending', st') \<Rightarrow>
          (case run K E ls r pending' st' of (tr', out, st'') \<Rightarrow> (tr @ tr', out, st''))
      | (tr, out, st') \<Rightarrow> (tr, out, st'))"

section \<open>The application\<close>

text \<open>Lines 62 to 109: what is registered before the maintenance check.\<close>

definition beforeMaintenance :: "layer list" where
  "beforeMaintenance =
     [Use [] SentryRequestHandler,
      Use [] BodyParserUrlencoded,
      Use [] BodyParserJson,
      Use [] CookieSession,
      Use [] LogMiddleware,
      Use [''public''] (ExpressStatic ''static''),
      Use [''public'', ''css-reset''] (ExpressStatic ''node_modules/@atlaskit/css-reset/dist''),
      Use [''public'', ''primer''] (ExpressStatic ''node_modules/primer/build''),
      Use [''public'', ''atlassian-ui-kit''] (ExpressStatic ''node_modules/@atlaskit/reduced-ui-pack/dist''),
      Use [] JiraHostSession,
      Use [] GithubClientMiddleware,
      Use [''api''] Api,
      Route GET [Lit ''jira'', Lit ''atlassian-connect.json''] [GetJiraConnect]]"

text \<open>Lines 113 to 139: the routes registered after it.\<close>

definition routes :: "layer list" where
  "routes =
     [Route GET [Lit ''maintenance''] [CsrfProtection, GetMaintenance],
      Route GET [Lit ''github'', Lit ''setup''] [CsrfProtection, CheckGithubAuth, GetGitHubSetup],
      Route POST [Lit ''github'', Lit ''setup''] [CsrfProtection, PostGitHubSetup],
      Route GET [Lit ''github'', Lit ''configuration'']
        [CsrfProtection, CheckGithubAuth, GetGitHubConfiguration],
      Route POST [Lit ''github'', Lit ''configuration''] [CsrfProtection, PostGitHubConfiguration],
      Route GET [Lit ''github'', Lit ''installations'']
        [CsrfProtection, CheckGithubAuth, ListGitHubInstallations],
      Route GET [Lit ''github'', Lit ''subscriptions'', Param ''installationId'']
        [CsrfProtection, GetGitHubSubscriptions],
      Route POST [Lit ''github'', Lit ''subscription''] [CsrfProtection, DeleteGitHubSubscription],
      Route GET [Lit ''jira'', Lit ''configuration'']
        [CsrfProtection, VerifyJiraMiddleware, GetJiraConfiguration],
      Route DELETE [Lit ''jira'', Lit ''configuration'']
        [VerifyJiraMiddleware, DeleteJiraConfiguration],
      Route POST [Lit ''jira'', Lit ''sync''] [VerifyJiraMiddleware, RetrySync],
      Route POST [Lit ''jira'', Lit ''events'', Lit ''disabled''] [JiraAuthenticate, PostJiraDisable],
      Route POST [Lit ''jira'', Lit ''events'', Lit ''enabled''] [JiraAuthenticate, PostJiraEnable],
      Route POST [Lit ''jira'', Lit ''events'', Lit ''installed''] [PostJiraInstall],
      Route POST [Lit ''jira'', Lit ''events'', Lit ''uninstalled'']
        [JiraAuthenticate, PostJiraUninstall],
      Route GET [] [RootRedirect]]"

text \<open>
  Lines 156 to 163: registered only when \<^verbatim>\<open>EXCEPTION_DEBUG_MODE\<close> is set (to a non-empty
  string) or in development.
\<close>

definition exceptionDebug :: "env \<Rightarrow> bool" where
  "exceptionDebug E =
     ((case EXCEPTION_DEBUG_MODE E of None \<Rightarrow> False | Some v \<Rightarrow> v \<noteq> [])
      \<or> NODE_ENV E = Some ''development'')"

definition boomRoutes :: "layer list" where
  "boomRoutes = [Route GET [Lit ''boom''] [Boom], Route POST [Lit ''boom''] [Boom]]"

text \<open>
  Modelled from the spec: \<^verbatim>\<open>oauth.addRoutes(app)\<close> of \<^verbatim>\<open>./github-oauth\<close>, which is not
  among the sources. The spec gives the OAuth routes as a login entry point and a callback
  entry point; the file configures them at \<^verbatim>\<open>loginURI\<close> and \<^verbatim>\<open>callbackURI\<close>. Both are
  reached by a browser redirect, so they are taken as GET routes.
\<close>

definition oauthRoutes :: "layer list" where
  "oauthRoutes =
     [Route GET [Lit ''github'', Lit ''login''] [OauthLogin],
      Route GET [Lit ''github'', Lit ''callback''] [OauthCallback]]"

definition app :: "env \<Rightarrow> layer list" where
  "app E =
     beforeMaintenance
     @ [Use [] MaintenanceCheck]
     @ routes
     @ (if exceptionDebug E then boomRoutes else [])
     @ [UseError AddSentryContext, UseError SentryErrorHandler]
     @ oauthRoutes
     @ [UseError CatchErrors]"

text \<open>Serving one request: the whole application, with no error pending at the start.\<close>

definition serve :: "collab \<Rightarrow> env \<Rightarrow> request \<Rightarrow> reqctx \<Rightarrow> trace \<times> outcome \<times> reqctx" where
  "serve K E r st = run K E (app E) r None st"

text \<open>The chains of the routes that a request selects, in registration order.\<close>

fun routeChains :: "layer list \<Rightarrow> request \<Rightarrow> handler list list" where
  "routeChains [] r = []"
| "routeChains (Route m pat hs # ls) r =
     (if fires (Route m pat hs) r then hs # routeChains ls r else routeChains ls r)"
| "routeChains (l # ls) r = routeChains ls r"

fun isErrorLayer :: "layer \<Rightarrow> bool" where
  "isErrorLayer (UseError h) = True"
| "isErrorLayer l = False"

text \<open>
  A handler \<open>h\<close> is guarded by \<open>g\<close> in a layer when the layer does not name \<open>h\<close>, or is a
  route whose chain is exactly \<open>g\<close> followed by \<open>h\<close>.
\<close>

fun guardedBy :: "handler \<Rightarrow> handler \<Rightarrow> layer \<Rightarrow> bool" where
  "guardedBy g h (Route m pat hs) = (h \<notin> set hs \<or> hs = [g, h])"
| "guardedBy g h (Use mount x) = (x \<noteq> h)"
| "guardedBy g h (UseError x) = (x \<noteq> h)"

text \<open>The handlers that ran, in order.\<close>

definition called :: "trace \<times> outcome \<times> reqctx \<Rightarrow> handler list" where
  "called res = map fst (fst res)"

section \<open>The trust checks the file requires\<close>

text \<open>
  Modelled from the spec: \<^verbatim>\<open>checkGithubAuth\<close> of \<^verbatim>\<open>./github-oauth\<close>, which is not among
  the sources. The spec's GitHubSession domain: it delegates to the OAuth credential
  verifier (\<open>grantValid\<close>); if the session lacks a valid, non-expired OAuth grant, the response
  is a redirect to the login entry point, not an error; on success the principal is attached
  to the request.
\<close>

definition lacksGrant :: "(string \<Rightarrow> bool) \<Rightarrow> reqctx \<Rightarrow> bool" where
  "lacksGrant grantValid st =
     (case githubToken (session st) of None \<Rightarrow> True | Some g \<Rightarrow> \<not> grantValid g)"

definition checkGithubAuth :: "(string \<Rightarrow> bool) \<Rightarrow> request \<Rightarrow> reqctx \<Rightarrow> hres \<times> reqctx" where
  "checkGithubAuth grantValid r st =
     (case githubToken (session st) of
        None \<Rightarrow> (Responded (Redirect loginURI), st)
      | Some g \<Rightarrow>
          if grantValid g then (CallNext, st\<lparr>principal := GitHubUser g\<rparr>)
          else (Responded (Redirect loginURI), st))"

text \<open>
  Modelled from the spec: \<^verbatim>\<open>jiraAuthenticate\<close> of \<^verbatim>\<open>../jira/authenticate\<close>, which is not
  among the sources. The spec's webhook authenticator for enabled, disabled and uninstalled:
  the request must carry a proof verifiable against the shared secret on file for the host in
  the payload; with no tenant record for that host it fails with NotFound, and when the
  verification fails, with Unauthorized. \<open>tenants\<close> maps a host to its shared secret.
\<close>

definition jiraAuthenticate ::
  "(string \<rightharpoonup> string) \<Rightarrow> (string \<Rightarrow> request \<Rightarrow> bool) \<Rightarrow> request \<Rightarrow> reqctx \<Rightarrow> hres \<times> reqctx" where
  "jiraAuthenticate tenants proofValid r st =
     (case tenants (payloadHost r) of
        None \<Rightarrow> (CallNextErr (Error ''Not Found''), st)
      | Some secret \<Rightarrow>
          if proofValid secret r then (CallNext, st\<lparr>principal := TrackerTenant (payloadHost r)\<rparr>)
          else (CallNextErr (Error ''Unauthorized''), st))"

text \<open>
  Modelled from the spec: \<^verbatim>\<open>verifyJiraMiddleware\<close> of \<^verbatim>\<open>./verify-jira-middleware\<close>,
  which is not among the sources. The spec's TrackerSessionBound domain: it requires the
  session's tenant host to be set, and fails with Unauthorized if it is absent.
\<close>

definition verifyJiraMiddleware :: "request \<Rightarrow> reqctx \<Rightarrow> hres \<times> reqctx" where
  "verifyJiraMiddleware r st =
     (case jiraHost (session st) of
        None \<Rightarrow> (CallNextErr (Error ''Unauthorized''), st)
      | Some h \<Rightarrow> (CallNext, st))"



section \<open>Sample collaborators, environments and requests\<close>

text \<open>
  Collaborators whose required handlers do as \<open>f\<close> says and leave the context alone, whose
  error middleware passes the error on, and whose token check compares token and secret.
\<close>

definition collabOf :: "(handler \<Rightarrow> hres) \<Rightarrow> collab" where
  "collabOf f =
     \<lparr>behaviour = (\<lambda>h r st. (f h, st)),
      errBehaviour = (\<lambda>h e r st. (CallNextErr e, st)),
      csrfVerify = (\<lambda>secret token. secret = token),
      csrfFresh = ''fresh-secret'',
      csrfFailure = Error ''invalid csrf token'',
      getAuthenticated = (\<lambda>st. Inl (Error ''Not Found''))\<rparr>"

definition only :: "handler \<Rightarrow> hres \<Rightarrow> handler \<Rightarrow> hres" where
  "only h res h' = (if h' = h then res else CallNext)"

definition answering :: "handler \<Rightarrow> response \<Rightarrow> collab" where
  "answering h p = collabOf (only h (Responded p))"

definition raising :: "handler \<Rightarrow> jserror \<Rightarrow> collab" where
  "raising h e = collabOf (only h (CallNextErr e))"

text \<open>The same with the three trust checks as the spec gives them.\<close>

definition gatedBehaviour :: "handler \<Rightarrow> request \<Rightarrow> reqctx \<Rightarrow> hres \<times> reqctx" where
  "gatedBehaviour h r st =
     (if h = CheckGithubAuth then checkGithubAuth (\<lambda>g. g = ''live-grant'') r st
      else if h = JiraAuthenticate
        then jiraAuthenticate [''acme.example'' \<mapsto> ''s3cr3t''] (\<lambda>secret q. False) r st
      else if h = VerifyJiraMiddleware then verifyJiraMiddleware r st
      else if h \<in> set (concat (map handlersOf routes)) then (Responded (Body (Code 200) ''page''), st)
      else (CallNext, st))"

definition gated :: collab where
  "gated = (collabOf (only Api CallNext))\<lparr>behaviour := gatedBehaviour\<rparr>"




definition production :: env where
  "production = \<lparr>NODE_ENV = Some ''production'', EXCEPTION_DEBUG_MODE = None,
     isMaintenanceMode = False\<rparr>"


definition development :: env where
  "development = production\<lparr>NODE_ENV := Some ''development''\<rparr>"

definition testing :: env where
  "testing = production\<lparr>NODE_ENV := Some ''test''\<rparr>"

definition unset :: env where
  "unset = \<lparr>NODE_ENV = None, EXCEPTION_DEBUG_MODE = None, isMaintenanceMode = False\<rparr>"

definition req :: "http_method \<Rightarrow> string list \<Rightarrow> request" where
  "req m p = \<lparr>httpMethod = m, path = p, xdm_e = None, csrfToken = None, payloadHost = []\<rparr>"

definition emptySession :: session where
  "emptySession = \<lparr>jiraHost = None, csrfSecret = None, githubToken = None, oauthState = None\<rparr>"

definition fresh :: reqctx where
  "fresh = \<lparr>session = emptySession, principal = NoPrincipal, locals = []\<rparr>"

definition bound :: reqctx where
  "bound = fresh\<lparr>session := emptySession\<lparr>jiraHost := Some (QString ''https://acme.atlassian.net'')\<rparr>\<rparr>"

definition emptyParam :: request where
  "emptyParam = (req GET [''jira'', ''configuration''])\<lparr>xdm_e := Some (QString '''')\<rparr>"

definition otherTenant :: request where
  "otherTenant =
     (req GET [''jira'', ''configuration''])\<lparr>xdm_e := Some (QString ''https://other.atlassian.net'')\<rparr>"

text \<open>
  A session with an anti-forgery secret of its own, and a request that submits the token of
  another session.
\<close>

definition signedIn :: reqctx where
  "signedIn = bound\<lparr>session := (session bound)\<lparr>csrfSecret := Some ''secret-of-this-session''\<rparr>\<rparr>"

definition forged :: request where
  "forged = (req POST [''github'', ''setup''])\<lparr>csrfToken := Some ''secret-of-another-session''\<rparr>"

section \<open>The router's runs\<close>

lemma truthy_iff: "truthy v \<longleftrightarrow> v \<noteq> None \<and> v \<noteq> Some (QString [])"
  by (cases v rule: truthy.cases) simp_all

text \<open>The literal segments of the application are in lower case already.\<close>

lemma fold_literals:
  "foldCase ''public'' = ''public''"
  "foldCase ''css-reset'' = ''css-reset''"
  "foldCase ''primer'' = ''primer''"
  "foldCase ''atlassian-ui-kit'' = ''atlassian-ui-kit''"
  "foldCase ''api'' = ''api''"
  "foldCase ''jira'' = ''jira''"
  "foldCase ''atlassian-connect.json'' = ''atlassian-connect.json''"
  "foldCase ''maintenance'' = ''maintenance''"
  "foldCase ''github'' = ''github''"
  "foldCase ''setup'' = ''setup''"
  "foldCase ''configuration'' = ''configuration''"
  "foldCase ''installations'' = ''installations''"
  "foldCase ''subscriptions'' = ''subscriptions''"
  "foldCase ''subscription'' = ''subscription''"
  "foldCase ''sync'' = ''sync''"
  "foldCase ''events'' = ''events''"
  "foldCase ''disabled'' = ''disabled''"
  "foldCase ''enabled'' = ''enabled''"
  "foldCase ''installed'' = ''installed''"
  "foldCase ''uninstalled'' = ''uninstalled''"
  "foldCase ''boom'' = ''boom''"
  "foldCase ''login'' = ''login''"
  "foldCase ''callback'' = ''callback''"
  by (simp_all add: foldCase_def toLower_def)

lemmas layout = routes_def boomRoutes_def oauthRoutes_def handlesMethod_def sameSegment_def
  fold_literals

lemma run_append:
  "run K E (xs @ ys) r m st =
     (case run K E xs r m st of
        (tr, Falls m', st') \<Rightarrow>
          (case run K E ys r m' st' of (tr', out, st'') \<Rightarrow> (tr @ tr', out, st''))
      | (tr, out, st') \<Rightarrow> (tr, out, st'))"
  by (induction xs arbitrary: m st) (auto split: prod.splits outcome.splits)

lemma chain_handlers:
  "(h, res) \<in> set (fst (chain K E hs r st)) \<Longrightarrow> h \<in> set hs"
proof (induction hs arbitrary: st)
  case Nil
  then show ?case by simp
next
  case (Cons a hs)
  obtain x st1 where i: "invoke K E a r st = (x, st1)"
    by (cases "invoke K E a r st") auto
  show ?case
  proof (cases "x = CallNext")
    case True
    obtain tr y st2 where c: "chain K E hs r st1 = (tr, y, st2)"
      by (cases "chain K E hs r st1") auto
    with Cons.prems i True have "h = a \<or> (h, res) \<in> set (fst (chain K E hs r st1))"
      by auto
    with Cons.IH show ?thesis by auto
  next
    case False
    with Cons.prems i show ?thesis by (cases x) auto
  qed
qed

lemma step_handlers:
  assumes "(h, res) \<in> set (fst (step K E l r m st))"
  shows "h \<in> set (handlersOf l) \<and> (fires l r \<or> isErrorLayer l)"
proof (cases m)
  case None
  show ?thesis
  proof (cases "isErrorLayer l")
    case True
    with assms None show ?thesis by (cases l) auto
  next
    case False
    with assms None have f: "fires l r"
      and "(h, res) \<in> set (fst (chain K E (handlersOf l) r st))"
      by (cases l; auto split: if_splits prod.splits)+
    with chain_handlers show ?thesis by blast
  qed
next
  case (Some e)
  with assms show ?thesis by (cases l) (auto split: prod.splits)
qed

lemma run_handlers:
  "(h, res) \<in> set (fst (run K E ls r m st)) \<Longrightarrow>
     \<exists>l \<in> set ls. h \<in> set (handlersOf l) \<and> (fires l r \<or> isErrorLayer l)"
proof (induction ls arbitrary: m st)
  case Nil
  then show ?case by simp
next
  case (Cons l ls)
  obtain tr out st' where s: "step K E l r m st = (tr, out, st')"
    by (cases "step K E l r m st") auto
  show ?case
  proof (cases "(h, res) \<in> set tr")
    case True
    with s step_handlers [of h res K E l r m st] show ?thesis by auto
  next
    case False
    with Cons.prems s obtain m' where "out = Falls m'"
      and "(h, res) \<in> set (fst (run K E ls r m' st'))"
      by (cases out) (auto split: prod.splits)
    with Cons.IH show ?thesis by auto
  qed
qed






lemma serve_after_before:
  assumes "run K E beforeMaintenance r None st = (tr, Falls None, st1)"
    and "run K E (Use [] MaintenanceCheck # routes
           @ (if exceptionDebug E then boomRoutes else [])
           @ [UseError AddSentryContext, UseError SentryErrorHandler]
           @ oauthRoutes @ [UseError CatchErrors]) r None st1 = (tr', out, st')"
  shows "serve K E r st = (tr @ tr', out, st')"
  using assms by (simp add: serve_def app_def run_append del: run.simps)

lemma chain_guard:
  "chain K E [g, h] r st =
     (case invoke K E g r st of
        (CallNext, st') \<Rightarrow>
          (case invoke K E h r st' of (res, st'') \<Rightarrow> ([(g, CallNext), (h, res)], res, st''))
      | (res, st') \<Rightarrow> ([(g, res)], res, st'))"
  by (auto split: prod.splits hres.splits)

lemma step_guarded:
  assumes gh: "g \<noteq> h" and gd: "guardedBy g h l"
    and mem: "(h, res) \<in> set (fst (step K E l r m st))"
  shows "fst (step K E l r m st) = [(g, CallNext), (h, res)]"
proof -
  from step_handlers [OF mem] have hl: "h \<in> set (handlersOf l)" by simp
  with gd obtain mt pat where l: "l = Route mt pat [g, h]"
    by (cases l) auto
  show ?thesis
  proof (cases m)
    case None
    with mem l have f: "fires l r" by (auto split: if_splits)
    obtain x st1 where i: "invoke K E g r st = (x, st1)"
      by (cases "invoke K E g r st") auto
    obtain y st2 where j: "invoke K E h r st1 = (y, st2)"
      by (cases "invoke K E h r st1") auto
    from mem l None f i j gh show ?thesis
      by (cases x) (auto simp: chain_guard simp del: chain.simps)
  next
    case (Some e)
    with mem l show ?thesis by simp
  qed
qed

lemma run_Cons_trace:
  "\<exists>rest. fst (run K E (l # ls) r m st) = fst (step K E l r m st) @ rest"
proof -
  obtain tr out st' where s: "step K E l r m st = (tr, out, st')"
    by (cases "step K E l r m st") auto
  show ?thesis
  proof (cases out)
    case (Falls m')
    obtain tr2 out2 st2 where "run K E ls r m' st' = (tr2, out2, st2)"
      by (cases "run K E ls r m' st'") auto
    with s Falls show ?thesis by simp
  next
    case (Sent p)
    with s show ?thesis by simp
  next
    case Hanging
    with s show ?thesis by simp
  qed
qed

lemma run_guarded:
  assumes gh: "g \<noteq> h"
  shows "\<forall>l \<in> set ls. guardedBy g h l \<Longrightarrow> (h, res) \<in> set (fst (run K E ls r m st)) \<Longrightarrow>
     \<exists>pre post. fst (run K E ls r m st) = pre @ (g, CallNext) # (h, res) # post"
proof (induction ls arbitrary: m st)
  case Nil
  then show ?case by simp
next
  case (Cons l ls)
  obtain tr out st' where s: "step K E l r m st = (tr, out, st')"
    by (cases "step K E l r m st") auto
  show ?case
  proof (cases "(h, res) \<in> set tr")
    case True
    with s Cons.prems step_guarded [OF gh, of l res K E r m st]
    have tr: "tr = [(g, CallNext), (h, res)]" by simp
    obtain rest where "fst (run K E (l # ls) r m st) = tr @ rest"
      using s run_Cons_trace [of K E l ls r m st] by auto
    with tr have "fst (run K E (l # ls) r m st) = [] @ (g, CallNext) # (h, res) # rest"
      by simp
    then show ?thesis by blast
  next
    case False
    with Cons.prems s obtain m' where o: "out = Falls m'"
      and t: "(h, res) \<in> set (fst (run K E ls r m' st'))"
      by (cases out) (auto split: prod.splits)
    from Cons.IH [OF _ t] Cons.prems obtain pre post
      where "fst (run K E ls r m' st') = pre @ (g, CallNext) # (h, res) # post"
      by auto
    with s o have "fst (run K E (l # ls) r m st) = (tr @ pre) @ (g, CallNext) # (h, res) # post"
      by (auto split: prod.splits)
    then show ?thesis by blast
  qed
qed


lemma never_called:
  assumes "\<forall>l \<in> set ls. h \<in> set (handlersOf l) \<longrightarrow> \<not> fires l r \<and> \<not> isErrorLayer l"
  shows "h \<notin> set (called (run K E ls r m st))"
proof
  assume "h \<in> set (called (run K E ls r m st))"
  then obtain res where "(h, res) \<in> set (fst (run K E ls r m st))"
    by (auto simp: called_def)
  from run_handlers [OF this] assms show False by blast
qed








lemma csrf_ignored_get:
  "httpMethod r = GET \<or> httpMethod r = HEAD \<Longrightarrow>
     csrfProtection K E r st =
       (CallNext, st\<lparr>session := (session st)\<lparr>csrfSecret := Some (sessionSecret K st)\<rparr>\<rparr>)"
  by (auto simp: csrfProtection_def Let_def ignoreMethods_def csurfDefaultIgnoreMethods_def)

lemma checkGithubAuth_lacking:
  "lacksGrant grantValid st \<Longrightarrow> checkGithubAuth grantValid r st = (Responded (Redirect loginURI), st)"
  by (auto simp: lacksGrant_def checkGithubAuth_def split: option.splits)

lemma lacksGrant_csrfSecret:
  "lacksGrant grantValid (st\<lparr>session := (session st)\<lparr>csrfSecret := c\<rparr>\<rparr>) = lacksGrant grantValid st"
  by (simp add: lacksGrant_def)

lemma before_gated:
  "run gated E beforeMaintenance (req m [''github'', x]) None st
     = ([(SentryRequestHandler, CallNext), (BodyParserUrlencoded, CallNext),
         (BodyParserJson, CallNext), (CookieSession, CallNext), (LogMiddleware, CallNext),
         (JiraHostSession, CallNext), (GithubClientMiddleware, CallNext)], Falls None, st)"
  by (simp add: beforeMaintenance_def gated_def gatedBehaviour_def collabOf_def req_def
      jiraHostSession_def routes_def sameSegment_def fold_literals)

lemma csrf_guarded:
  "h = PostGitHubSetup \<or> h = PostGitHubConfiguration \<or> h = DeleteGitHubSubscription \<Longrightarrow>
     \<forall>l \<in> set (app E). guardedBy CsrfProtection h l"
  by (auto simp: app_def beforeMaintenance_def routes_def boomRoutes_def oauthRoutes_def)

lemma jira_routes_unguarded:
  assumes "httpMethod r = DELETE \<and> path r = [''jira'', ''configuration'']
      \<or> httpMethod r = POST \<and> path r = [''jira'', ''sync'']"
  shows "\<forall>l \<in> set (app E). CsrfProtection \<in> set (handlersOf l) \<longrightarrow> \<not> fires l r \<and> \<not> isErrorLayer l"
  using assms
  by (auto simp: app_def beforeMaintenance_def routes_def boomRoutes_def oauthRoutes_def
      handlesMethod_def sameSegment_def fold_literals)

lemma csrf_checked:
  "NODE_ENV E \<noteq> Some ''test'' \<Longrightarrow> httpMethod r \<notin> {GET, HEAD, OPTIONS} \<Longrightarrow>
     fst (csrfProtection K E r st) =
       (if tokenVerified K r st then CallNext else CallNextErr (csrfFailure K))"
  by (simp add: csrfProtection_def Let_def ignoreMethods_def csurfDefaultIgnoreMethods_def)

lemma csrf_rejected_run:
  assumes mm: "\<not> isMaintenanceMode E"
    and nt: "NODE_ENV E \<noteq> Some ''test''"
    and nd: "NODE_ENV E \<noteq> Some ''development''"
    and meth: "httpMethod r = POST"
    and pth: "path r = [''github'', ''setup''] \<or> path r = [''github'', ''configuration'']
        \<or> path r = [''github'', ''subscription'']"
    and bad: "\<not> tokenVerified K r st1"
    and sentry: "\<forall>e q s. errBehaviour K SentryErrorHandler e q s = (CallNextErr e, s)"
  shows "run K E (Use [] MaintenanceCheck # routes
           @ (if exceptionDebug E then boomRoutes else [])
           @ [UseError AddSentryContext, UseError SentryErrorHandler]
           @ oauthRoutes @ [UseError CatchErrors]) r None st1
      = ([(MaintenanceCheck, CallNext),
          (CsrfProtection, CallNextErr (csrfFailure K)),
          (AddSentryContext, CallNextErr (csrfFailure K)),
          (SentryErrorHandler, CallNextErr (csrfFailure K)),
          (CatchErrors, catchErrors E (csrfFailure K))],
         settle (catchErrors E (csrfFailure K)),
         snd (csrfProtection K E r st1))"
proof -
  obtain x st2 where c: "csrfProtection K E r st1 = (x, st2)"
    by (cases "csrfProtection K E r st1") auto
  with nt meth bad csrf_checked [of E r K st1] have x: "x = CallNextErr (csrfFailure K)"
    by simp
  obtain y where y: "catchErrors E (csrfFailure K) = y"
    by simp
  from nd y have "y \<noteq> CallNext"
    by (auto simp: catchErrors_def split: status.splits)
  with mm meth pth sentry
  have "run K E (Use [] MaintenanceCheck # routes
           @ (if exceptionDebug E then boomRoutes else [])
           @ [UseError AddSentryContext, UseError SentryErrorHandler]
           @ oauthRoutes @ [UseError CatchErrors]) r None st1
      = ([(MaintenanceCheck, CallNext),
          (CsrfProtection, CallNextErr (csrfFailure K)),
          (AddSentryContext, CallNextErr (csrfFailure K)),
          (SentryErrorHandler, CallNextErr (csrfFailure K)),
          (CatchErrors, y)],
         settle y, st2)"
    by (elim disjE; cases y)
       (simp_all add: layout maintenanceCheck_def c x addSentryContext_def y)
  with c y show ?thesis by simp
qed

section \<open>The session binding\<close>

text \<open>
  Claim C4, as amended. For every request whose \<^verbatim>\<open>xdm_e\<close> query parameter is present and
  not the empty string, the session's \<^verbatim>\<open>jiraHost\<close> equals the parameter's value after the
  session-binding step, whatever it was before. For every request without the parameter, or
  with the empty string as its value, the step leaves the whole context untouched. In both
  cases the step calls \<^verbatim>\<open>next()\<close> and raises nothing.
\<close>

theorem jiraHostSession_nonempty_param:
  "(truthy (xdm_e r) \<longrightarrow> jiraHost (session (jiraHostSession r st)) = xdm_e r)
   \<and> (truthy (xdm_e r) \<longleftrightarrow> xdm_e r \<noteq> None \<and> xdm_e r \<noteq> Some (QString ''''))
   \<and> (\<not> truthy (xdm_e r) \<longrightarrow> jiraHostSession r st = st)
   \<and> invoke K E JiraHostSession r st = (CallNext, jiraHostSession r st)"
  by (simp add: jiraHostSession_def truthy_iff)

theorem jiraHostSession_nonempty_param_witness:
  "truthy (xdm_e otherTenant)
   \<and> jiraHost (session (jiraHostSession otherTenant bound)) = Some (QString ''https://other.atlassian.net'')
   \<and> \<not> truthy (xdm_e (req GET []))
   \<and> jiraHostSession (req GET []) bound = bound"
  using jiraHostSession_nonempty_param [of otherTenant bound "collabOf (only Api CallNext)" production]
    jiraHostSession_nonempty_param [of "req GET []" bound "collabOf (only Api CallNext)" production]
  by (simp add: otherTenant_def req_def)

text \<open>
  Claim C4 as the spec states it fails: the request carries the parameter, with the empty
  string as its value, and after the step the session still holds the host it held before.
\<close>

theorem jiraHostSession_empty_param_counterexample:
  "xdm_e emptyParam = Some (QString '''')
   \<and> jiraHost (session (jiraHostSession emptyParam bound)) \<noteq> xdm_e emptyParam"
  by (simp add: emptyParam_def req_def jiraHostSession_def bound_def fresh_def emptySession_def)

text \<open>
  Claim C9. A request whose \<^verbatim>\<open>xdm_e\<close> parameter is present but equal to the empty string
  is treated as one without the parameter: the session-binding step leaves the context
  (and so the session's \<^verbatim>\<open>jiraHost\<close>) unchanged and calls \<^verbatim>\<open>next()\<close>.
\<close>

theorem empty_xdm_e_is_absent:
  "xdm_e r = Some (QString '''') \<Longrightarrow>
     jiraHostSession r st = st
     \<and> jiraHostSession r st = jiraHostSession (r\<lparr>xdm_e := None\<rparr>) st
     \<and> invoke K E JiraHostSession r st = (CallNext, st)"
  by (simp add: jiraHostSession_def)

theorem empty_xdm_e_is_absent_witness:
  "xdm_e emptyParam = Some (QString '''')
   \<and> jiraHostSession emptyParam bound = bound
   \<and> jiraHost (session (jiraHostSession emptyParam bound)) = Some (QString ''https://acme.atlassian.net'')"
proof -
  have h: "xdm_e emptyParam = Some (QString '''')"
    by (simp add: emptyParam_def req_def)
  from empty_xdm_e_is_absent [OF h, of bound "collabOf (only Api CallNext)" production] h
  show ?thesis by (simp add: bound_def fresh_def emptySession_def)
qed

section \<open>The anti-forgery guard's configuration\<close>

text \<open>
  Claim C10. In the test configuration the guard ignores exactly GET, HEAD, OPTIONS, POST
  and PUT. A DELETE request still needs a token that verifies: the guard lets it through
  exactly when the token verifies, and passes its error on otherwise. Every POST and every
  PUT is let through, whatever its token.
\<close>

theorem test_ignoreMethods:
  "NODE_ENV E = Some ''test'' \<Longrightarrow>
     set (ignoreMethods E) = {GET, HEAD, OPTIONS, POST, PUT}
     \<and> (httpMethod r = DELETE \<longrightarrow>
          fst (csrfProtection K E r st) =
            (if tokenVerified K r st then CallNext else CallNextErr (csrfFailure K)))
     \<and> (httpMethod r = POST \<or> httpMethod r = PUT \<longrightarrow> fst (csrfProtection K E r st) = CallNext)"
  by (auto simp: ignoreMethods_def csrfProtection_def Let_def)

theorem test_ignoreMethods_witness:
  "NODE_ENV testing = Some ''test''
   \<and> fst (csrfProtection (collabOf (only Api CallNext)) testing (req DELETE [''jira'', ''configuration'']) bound)
       = CallNextErr (Error ''invalid csrf token'')
   \<and> fst (csrfProtection (collabOf (only Api CallNext)) testing (req POST [''github'', ''setup'']) bound)
       = CallNext"
proof -
  have h: "NODE_ENV testing = Some ''test''"
    by (simp add: testing_def production_def)
  from test_ignoreMethods [OF h, of "req DELETE [''jira'', ''configuration'']" "collabOf (only Api CallNext)" bound]
    test_ignoreMethods [OF h, of "req POST [''github'', ''setup'']" "collabOf (only Api CallNext)" bound]
    h
  show ?thesis by (simp add: req_def tokenVerified_def collabOf_def)
qed

section \<open>The central error handler\<close>

lemma statusFor_cases:
  "statusFor (Error ''Unauthorized'') = Code 401"
  "statusFor (Error ''Forbidden'') = Code 403"
  "statusFor (Error ''Not Found'') = Code 404"
  by (simp_all add: statusFor_def errorCodesGet_def errorCodes_def)

lemma statusFor_other:
  "m \<notin> set objectPrototype \<Longrightarrow> m \<noteq> ''Unauthorized'' \<Longrightarrow> m \<noteq> ''Forbidden'' \<Longrightarrow> m \<noteq> ''Not Found''
     \<Longrightarrow> statusFor (Error m) = Code 400"
  by (simp add: statusFor_def errorCodesGet_def errorCodes_def)

text \<open>
  Claim C3, as amended. Outside the development mode, the central error handler answers an
  error whose message is \<^verbatim>\<open>Unauthorized\<close> with 401, \<^verbatim>\<open>Forbidden\<close> with 403,
  \<^verbatim>\<open>Not Found\<close> with 404, and any other message that is not the name of a member objects
  inherit with 400; each time it renders the integration-error page \<^verbatim>\<open>github-error.hbs\<close>.
\<close>

theorem catchErrors_mapping:
  "NODE_ENV E \<noteq> Some ''development'' \<Longrightarrow> message err \<notin> set objectPrototype \<Longrightarrow>
     catchErrors E err =
       Responded (Render
         (Code (if message err = ''Unauthorized'' then 401
                else if message err = ''Forbidden'' then 403
                else if message err = ''Not Found'' then 404
                else 400))
         ''github-error.hbs'')"
  by (cases err) (simp add: catchErrors_def statusFor_cases statusFor_other)

theorem catchErrors_mapping_witness:
  "catchErrors production (Error ''Forbidden'') = Responded (Render (Code 403) ''github-error.hbs'')
   \<and> catchErrors production (Error ''invalid csrf token'') = Responded (Render (Code 400) ''github-error.hbs'')"
  using catchErrors_mapping [of production "Error ''Forbidden''"]
    catchErrors_mapping [of production "Error ''invalid csrf token''"]
  by (simp add: production_def objectPrototype_def)

text \<open>
  Claim C3 as the spec states it fails: in the development mode a request that ends in an
  Unauthorized error gets no 401 and no error page. The handler passes the error on, and
  the run ends with the raw error falling off the end of the application.
\<close>

theorem catchErrors_development_counterexample:
  "catchErrors development (Error ''Unauthorized'') = CallNextErr (Error ''Unauthorized'')
   \<and> fst (snd (serve (raising GetGitHubSetup (Error ''Unauthorized'')) development
         (req GET [''github'', ''setup'']) bound))
       = Falls (Some (Error ''Unauthorized''))"
  by code_simp

text \<open>
  The development switch of the handler: the error is passed on untouched exactly in
  development; elsewhere the lookup decides, and the page is sent whenever the status it
  gives is a number.
\<close>

lemma catchErrors_outside_development:
  "NODE_ENV E \<noteq> Some ''development'' \<Longrightarrow>
     catchErrors E err =
       (case statusFor err of
          Code n \<Rightarrow> Responded (Render (Code n) ''github-error.hbs'')
        | Inherited k \<Rightarrow> CallNextErr invalidStatusCode)"
  by (simp add: catchErrors_def)

lemma catchErrors_in_development:
  "NODE_ENV E = Some ''development'' \<Longrightarrow> catchErrors E err = CallNextErr err"
  by (simp add: catchErrors_def)

text \<open>
  Claim C8, at the input where the code departs from it. The claim: a raw error surfaces
  only under the development switch, and outside that mode every failed request gets the
  status and the error page. In production, a request whose handler fails with an error
  whose message is \<^verbatim>\<open>constructor\<close> is not answered with the error page: the lookup finds
  the member that the object literal inherits, the response cannot be written with it as
  status, and the run ends with a raw error falling off the end of the application.
\<close>

theorem catchErrors_inherited_member:
  "NODE_ENV production \<noteq> Some ''development''
   \<and> statusFor (Error ''constructor'') = Inherited ''constructor''
   \<and> catchErrors production (Error ''constructor'') = CallNextErr invalidStatusCode
   \<and> serve (raising GetGitHubSetup (Error ''constructor'')) production
        (req GET [''github'', ''setup'']) fresh
     = ([(SentryRequestHandler, CallNext), (BodyParserUrlencoded, CallNext),
         (BodyParserJson, CallNext), (CookieSession, CallNext), (LogMiddleware, CallNext),
         (JiraHostSession, CallNext), (GithubClientMiddleware, CallNext),
         (MaintenanceCheck, CallNext), (CsrfProtection, CallNext), (CheckGithubAuth, CallNext),
         (GetGitHubSetup, CallNextErr (Error ''constructor'')),
         (AddSentryContext, CallNextErr (Error ''constructor'')),
         (SentryErrorHandler, CallNextErr (Error ''constructor'')),
         (CatchErrors, CallNextErr invalidStatusCode)],
        Falls (Some invalidStatusCode),
        fresh\<lparr>session := emptySession\<lparr>csrfSecret := Some ''fresh-secret''\<rparr>\<rparr>)"
  by code_simp

section \<open>Maintenance\<close>




section \<open>The lifecycle events\<close>



section \<open>The tenant host of the session\<close>








section \<open>The GitHub session\<close>

text \<open>
  Claim C7. With \<^verbatim>\<open>checkGithubAuth\<close> as the spec gives it, a GET (or HEAD) request for one
  of the three routes that require the GitHub session (setup, configuration, installations)
  which reaches the routes with a session lacking a valid grant is answered by a redirect to
  the login entry point \<^verbatim>\<open>/github/login\<close>; no error is raised and the page handler is not
  called. The other two trust checks, as the spec gives them, never send a response: they
  call \<^verbatim>\<open>next()\<close> or pass an error on.
\<close>

theorem github_session_redirects:
  assumes gate: "behaviour K CheckGithubAuth = checkGithubAuth grantValid"
    and mm: "\<not> isMaintenanceMode E"
    and meth: "httpMethod r = GET \<or> httpMethod r = HEAD"
    and pth: "path r = [''github'', ''setup''] \<or> path r = [''github'', ''configuration'']
        \<or> path r = [''github'', ''installations'']"
    and before: "run K E beforeMaintenance r None st = (tr, Falls None, st1)"
    and lacks: "lacksGrant grantValid st1"
  shows "serve K E r st =
      (tr @ [(MaintenanceCheck, CallNext), (CsrfProtection, CallNext),
             (CheckGithubAuth, Responded (Redirect ''/github/login''))],
       Sent (Redirect ''/github/login''),
       snd (csrfProtection K E r st1))
    \<and> fst (jiraAuthenticate tenants proofValid q s) \<noteq> Responded p
    \<and> fst (verifyJiraMiddleware q s) \<noteq> Responded p"
proof -
  let ?st2 = "st1\<lparr>session := (session st1)\<lparr>csrfSecret := Some (sessionSecret K st1)\<rparr>\<rparr>"
  from lacks have l2: "lacksGrant grantValid ?st2"
    by (simp add: lacksGrant_csrfSecret)
  have "run K E (Use [] MaintenanceCheck # routes
           @ (if exceptionDebug E then boomRoutes else [])
           @ [UseError AddSentryContext, UseError SentryErrorHandler]
           @ oauthRoutes @ [UseError CatchErrors]) r None st1
      = ([(MaintenanceCheck, CallNext), (CsrfProtection, CallNext),
          (CheckGithubAuth, Responded (Redirect ''/github/login''))],
         Sent (Redirect ''/github/login''), ?st2)"
    using mm meth pth
    by (elim disjE)
       (simp_all add: layout maintenanceCheck_def csrf_ignored_get gate
          checkGithubAuth_lacking [OF l2] loginURI_def)
  with before meth have "serve K E r st =
      (tr @ [(MaintenanceCheck, CallNext), (CsrfProtection, CallNext),
             (CheckGithubAuth, Responded (Redirect ''/github/login''))],
       Sent (Redirect ''/github/login''),
       snd (csrfProtection K E r st1))"
    by (simp add: serve_after_before csrf_ignored_get del: run.simps)
  moreover have "fst (jiraAuthenticate tenants proofValid q s) \<noteq> Responded p"
    by (simp add: jiraAuthenticate_def split: option.splits)
  moreover have "fst (verifyJiraMiddleware q s) \<noteq> Responded p"
    by (simp add: verifyJiraMiddleware_def split: option.splits)
  ultimately show ?thesis by blast
qed

theorem github_session_redirects_witness:
  "serve gated production (req GET [''github'', ''setup'']) bound
     = ([(SentryRequestHandler, CallNext), (BodyParserUrlencoded, CallNext),
         (BodyParserJson, CallNext), (CookieSession, CallNext), (LogMiddleware, CallNext),
         (JiraHostSession, CallNext), (GithubClientMiddleware, CallNext)]
        @ [(MaintenanceCheck, CallNext), (CsrfProtection, CallNext),
           (CheckGithubAuth, Responded (Redirect ''/github/login''))],
        Sent (Redirect ''/github/login''),
        snd (csrfProtection gated production (req GET [''github'', ''setup'']) bound))
   \<and> fst (jiraAuthenticate [''acme.example'' \<mapsto> ''s3cr3t''] (\<lambda>secret q. False)
          ((req POST [''jira'', ''events'', ''enabled''])\<lparr>payloadHost := ''acme.example''\<rparr>) bound)
       = CallNextErr (Error ''Unauthorized'')
   \<and> fst (verifyJiraMiddleware (req GET [''jira'', ''configuration'']) fresh)
       = CallNextErr (Error ''Unauthorized'')"
proof -
  have g: "behaviour gated CheckGithubAuth = checkGithubAuth (\<lambda>g. g = ''live-grant'')"
    by (rule ext)+ (simp add: gated_def gatedBehaviour_def)
  have m: "\<not> isMaintenanceMode production"
    by (simp add: production_def)
  have me: "httpMethod (req GET [''github'', ''setup'']) = GET \<or> httpMethod (req GET [''github'', ''setup'']) = HEAD"
    by (simp add: req_def)
  have p: "path (req GET [''github'', ''setup'']) = [''github'', ''setup'']
      \<or> path (req GET [''github'', ''setup'']) = [''github'', ''configuration'']
      \<or> path (req GET [''github'', ''setup'']) = [''github'', ''installations'']"
    by (simp add: req_def)
  have l: "lacksGrant (\<lambda>g. g = ''live-grant'') bound"
    by (simp add: lacksGrant_def bound_def fresh_def emptySession_def)
  from github_session_redirects [OF g m me p before_gated l]
  have "serve gated production (req GET [''github'', ''setup'']) bound
     = ([(SentryRequestHandler, CallNext), (BodyParserUrlencoded, CallNext),
         (BodyParserJson, CallNext), (CookieSession, CallNext), (LogMiddleware, CallNext),
         (JiraHostSession, CallNext), (GithubClientMiddleware, CallNext)]
        @ [(MaintenanceCheck, CallNext), (CsrfProtection, CallNext),
           (CheckGithubAuth, Responded (Redirect ''/github/login''))],
        Sent (Redirect ''/github/login''),
        snd (csrfProtection gated production (req GET [''github'', ''setup'']) bound))"
    by (rule conjunct1)
  moreover have "fst (jiraAuthenticate [''acme.example'' \<mapsto> ''s3cr3t''] (\<lambda>secret q. False)
          ((req POST [''jira'', ''events'', ''enabled''])\<lparr>payloadHost := ''acme.example''\<rparr>) bound)
       = CallNextErr (Error ''Unauthorized'')"
    by (simp add: jiraAuthenticate_def req_def)
  moreover have "fst (verifyJiraMiddleware (req GET [''jira'', ''configuration'']) fresh)
       = CallNextErr (Error ''Unauthorized'')"
    by (simp add: verifyJiraMiddleware_def fresh_def emptySession_def)
  ultimately show ?thesis by (intro conjI)
qed

section \<open>The anti-forgery guard on the routes\<close>

text \<open>
  Claim C2, as amended. The state-changing tenant-bound configuration routes (DELETE
  \<^verbatim>\<open>/jira/configuration\<close> and POST \<^verbatim>\<open>/jira/sync\<close>) have \<^verbatim>\<open>verifyJiraMiddleware\<close> and
  the handler in their chain and never call the anti-forgery guard. The guard stands before
  the handlers of the state-changing GitHub routes (POST \<^verbatim>\<open>/github/setup\<close>,
  \<^verbatim>\<open>/github/configuration\<close>, \<^verbatim>\<open>/github/subscription\<close>): such a handler is called only right
  after the guard called \<^verbatim>\<open>next()\<close>, and outside the test configuration the guard calls
  \<^verbatim>\<open>next()\<close> for a state-changing method exactly when the submitted token verifies against
  the secret of the session, and passes its error on otherwise. Outside test, development
  and maintenance, with Sentry's error handler passing errors on, such a request with a
  missing or foreign token ends with the error page under the status that the guard's
  error message maps to, when that status is a number; when the lookup finds an inherited
  member instead, no page can be sent and an error is passed on.
\<close>

theorem csrf_guard_coverage:
  "(httpMethod r = DELETE \<and> path r = [''jira'', ''configuration''] \<longrightarrow>
       routeChains (app E) r = [[VerifyJiraMiddleware, DeleteJiraConfiguration]]
       \<and> CsrfProtection \<notin> set (called (serve K E r st)))
   \<and> (httpMethod r = POST \<and> path r = [''jira'', ''sync''] \<longrightarrow>
       routeChains (app E) r = [[VerifyJiraMiddleware, RetrySync]]
       \<and> CsrfProtection \<notin> set (called (serve K E r st)))
   \<and> ((h = PostGitHubSetup \<or> h = PostGitHubConfiguration \<or> h = DeleteGitHubSubscription)
        \<and> (h, res) \<in> set (fst (serve K E r st)) \<longrightarrow>
       (\<exists>pre post. fst (serve K E r st) = pre @ (CsrfProtection, CallNext) # (h, res) # post))
   \<and> (NODE_ENV E \<noteq> Some ''test'' \<and> httpMethod r \<notin> {GET, HEAD, OPTIONS} \<longrightarrow>
       fst (csrfProtection K E r st) =
         (if tokenVerified K r st then CallNext else CallNextErr (csrfFailure K)))
   \<and> (\<not> isMaintenanceMode E \<and> NODE_ENV E \<noteq> Some ''test'' \<and> NODE_ENV E \<noteq> Some ''development''
        \<and> httpMethod r = POST
        \<and> (path r = [''github'', ''setup''] \<or> path r = [''github'', ''configuration'']
            \<or> path r = [''github'', ''subscription''])
        \<and> run K E beforeMaintenance r None st = (tr, Falls None, st1)
        \<and> \<not> tokenVerified K r st1
        \<and> (\<forall>e q s. errBehaviour K SentryErrorHandler e q s = (CallNextErr e, s)) \<longrightarrow>
       (let answer =
              (case statusFor (csrfFailure K) of
                 Code n \<Rightarrow> Responded (Render (Code n) ''github-error.hbs'')
               | Inherited k \<Rightarrow> CallNextErr invalidStatusCode)
        in serve K E r st =
             (tr @ [(MaintenanceCheck, CallNext),
                    (CsrfProtection, CallNextErr (csrfFailure K)),
                    (AddSentryContext, CallNextErr (csrfFailure K)),
                    (SentryErrorHandler, CallNextErr (csrfFailure K)),
                    (CatchErrors, answer)],
              settle answer,
              snd (csrfProtection K E r st1))))"
proof (intro conjI impI)
  assume a: "httpMethod r = DELETE \<and> path r = [''jira'', ''configuration'']"
  then show "routeChains (app E) r = [[VerifyJiraMiddleware, DeleteJiraConfiguration]]"
    by (simp add: app_def beforeMaintenance_def layout)
  from a jira_routes_unguarded [of r E]
  show "CsrfProtection \<notin> set (called (serve K E r st))"
    unfolding serve_def by (intro never_called) simp
next
  assume a: "httpMethod r = POST \<and> path r = [''jira'', ''sync'']"
  then show "routeChains (app E) r = [[VerifyJiraMiddleware, RetrySync]]"
    by (simp add: app_def beforeMaintenance_def layout)
  from a jira_routes_unguarded [of r E]
  show "CsrfProtection \<notin> set (called (serve K E r st))"
    unfolding serve_def by (intro never_called) simp
next
  assume a: "(h = PostGitHubSetup \<or> h = PostGitHubConfiguration \<or> h = DeleteGitHubSubscription)
        \<and> (h, res) \<in> set (fst (serve K E r st))"
  then have g: "\<forall>l \<in> set (app E). guardedBy CsrfProtection h l"
    by (intro csrf_guarded) auto
  from a have ne: "CsrfProtection \<noteq> h" by auto
  from a have "(h, res) \<in> set (fst (run K E (app E) r None st))"
    by (simp add: serve_def)
  from run_guarded [OF ne g this]
  show "\<exists>pre post. fst (serve K E r st) = pre @ (CsrfProtection, CallNext) # (h, res) # post"
    by (simp add: serve_def)
next
  assume "NODE_ENV E \<noteq> Some ''test'' \<and> httpMethod r \<notin> {GET, HEAD, OPTIONS}"
  then show "fst (csrfProtection K E r st) =
         (if tokenVerified K r st then CallNext else CallNextErr (csrfFailure K))"
    by (intro csrf_checked) auto
next
  assume a: "\<not> isMaintenanceMode E \<and> NODE_ENV E \<noteq> Some ''test'' \<and> NODE_ENV E \<noteq> Some ''development''
        \<and> httpMethod r = POST
        \<and> (path r = [''github'', ''setup''] \<or> path r = [''github'', ''configuration'']
            \<or> path r = [''github'', ''subscription''])
        \<and> run K E beforeMaintenance r None st = (tr, Falls None, st1)
        \<and> \<not> tokenVerified K r st1
        \<and> (\<forall>e q s. errBehaviour K SentryErrorHandler e q s = (CallNextErr e, s))"
  then have b: "run K E beforeMaintenance r None st = (tr, Falls None, st1)" by blast
  from a have nd: "NODE_ENV E \<noteq> Some ''development''" by blast
  from a have "run K E (Use [] MaintenanceCheck # routes
           @ (if exceptionDebug E then boomRoutes else [])
           @ [UseError AddSentryContext, UseError SentryErrorHandler]
           @ oauthRoutes @ [UseError CatchErrors]) r None st1
      = ([(MaintenanceCheck, CallNext),
          (CsrfProtection, CallNextErr (csrfFailure K)),
          (AddSentryContext, CallNextErr (csrfFailure K)),
          (SentryErrorHandler, CallNextErr (csrfFailure K)),
          (CatchErrors, catchErrors E (csrfFailure K))],
         settle (catchErrors E (csrfFailure K)),
         snd (csrfProtection K E r st1))"
    by (intro csrf_rejected_run) blast+
  from serve_after_before [OF b this] nd
  show "let answer =
              (case statusFor (csrfFailure K) of
                 Code n \<Rightarrow> Responded (Render (Code n) ''github-error.hbs'')
               | Inherited k \<Rightarrow> CallNextErr invalidStatusCode)
        in serve K E r st =
             (tr @ [(MaintenanceCheck, CallNext),
                    (CsrfProtection, CallNextErr (csrfFailure K)),
                    (AddSentryContext, CallNextErr (csrfFailure K)),
                    (SentryErrorHandler, CallNextErr (csrfFailure K)),
                    (CatchErrors, answer)],
              settle answer,
              snd (csrfProtection K E r st1))"
    by (simp add: Let_def catchErrors_def)
qed

theorem csrf_guard_coverage_witness:
  "CsrfProtection \<notin> set (called (serve (answering DeleteJiraConfiguration (Body (Code 200) ''deleted''))
       production (req DELETE [''jira'', ''configuration'']) bound))
   \<and> \<not> tokenVerified (collabOf (only Api CallNext)) forged signedIn
   \<and> fst (csrfProtection (collabOf (only Api CallNext)) production forged signedIn)
       = CallNextErr (Error ''invalid csrf token'')
   \<and> serve (collabOf (only Api CallNext)) production forged signedIn
       = ([(SentryRequestHandler, CallNext), (BodyParserUrlencoded, CallNext),
           (BodyParserJson, CallNext), (CookieSession, CallNext), (LogMiddleware, CallNext),
           (JiraHostSession, CallNext), (GithubClientMiddleware, CallNext)]
          @ [(MaintenanceCheck, CallNext),
             (CsrfProtection, CallNextErr (Error ''invalid csrf token'')),
             (AddSentryContext, CallNextErr (Error ''invalid csrf token'')),
             (SentryErrorHandler, CallNextErr (Error ''invalid csrf token'')),
             (CatchErrors, Responded (Render (Code 400) ''github-error.hbs''))],
          Sent (Render (Code 400) ''github-error.hbs''), signedIn)"
proof -
  let ?K = "collabOf (only Api CallNext)"
  let ?tr = "[(SentryRequestHandler, CallNext), (BodyParserUrlencoded, CallNext),
      (BodyParserJson, CallNext), (CookieSession, CallNext), (LogMiddleware, CallNext),
      (JiraHostSession, CallNext), (GithubClientMiddleware, CallNext)]"
  note del = csrf_guard_coverage [where r = "req DELETE [''jira'', ''configuration'']"
      and E = production and K = "answering DeleteJiraConfiguration (Body (Code 200) ''deleted'')"
      and st = bound]
  have d: "httpMethod (req DELETE [''jira'', ''configuration'']) = DELETE
      \<and> path (req DELETE [''jira'', ''configuration'']) = [''jira'', ''configuration'']"
    by (simp add: req_def)
  from del d have A: "CsrfProtection \<notin> set (called (serve
       (answering DeleteJiraConfiguration (Body (Code 200) ''deleted''))
       production (req DELETE [''jira'', ''configuration'']) bound))"
    by blast
  note post = csrf_guard_coverage [where r = forged and E = production and K = ?K
      and st = signedIn and tr = ?tr and ?st1.0 = signedIn]
  have e: "\<not> isMaintenanceMode production \<and> NODE_ENV production \<noteq> Some ''test''
      \<and> NODE_ENV production \<noteq> Some ''development''"
    by (simp add: production_def)
  have m: "httpMethod forged = POST" "httpMethod forged \<notin> {GET, HEAD, OPTIONS}"
    "path forged = [''github'', ''setup'']"
    by (simp_all add: forged_def req_def)
  have b: "run ?K production beforeMaintenance forged None signedIn = (?tr, Falls None, signedIn)"
    by code_simp
  have t: "\<not> tokenVerified ?K forged signedIn"
    by (simp add: tokenVerified_def sessionSecret_def forged_def signedIn_def collabOf_def)
  have s: "\<forall>e q s. errBehaviour ?K SentryErrorHandler e q s = (CallNextErr e, s)"
    by (simp add: collabOf_def)
  have f: "csrfFailure ?K = Error ''invalid csrf token''"
    by (simp add: collabOf_def)
  have st: "statusFor (Error ''invalid csrf token'') = Code 400"
    by (simp add: statusFor_def errorCodesGet_def errorCodes_def objectPrototype_def)
  have u: "snd (csrfProtection ?K production forged signedIn) = signedIn"
    by (simp add: csrfProtection_def Let_def sessionSecret_def signedIn_def)
  from post e m t have B: "fst (csrfProtection ?K production forged signedIn)
       = CallNextErr (Error ''invalid csrf token'')"
    by (simp add: f)
  from post e m b t s have "let answer =
              (case statusFor (csrfFailure ?K) of
                 Code n \<Rightarrow> Responded (Render (Code n) ''github-error.hbs'')
               | Inherited k \<Rightarrow> CallNextErr invalidStatusCode)
        in serve ?K production forged signedIn =
             (?tr @ [(MaintenanceCheck, CallNext),
                    (CsrfProtection, CallNextErr (csrfFailure ?K)),
                    (AddSentryContext, CallNextErr (csrfFailure ?K)),
                    (SentryErrorHandler, CallNextErr (csrfFailure ?K)),
                    (CatchErrors, answer)],
              settle answer,
              snd (csrfProtection ?K production forged signedIn))"
    by blast
  then have C: "serve ?K production forged signedIn
       = (?tr @ [(MaintenanceCheck, CallNext),
             (CsrfProtection, CallNextErr (Error ''invalid csrf token'')),
             (AddSentryContext, CallNextErr (Error ''invalid csrf token'')),
             (SentryErrorHandler, CallNextErr (Error ''invalid csrf token'')),
             (CatchErrors, Responded (Render (Code 400) ''github-error.hbs''))],
          Sent (Render (Code 400) ''github-error.hbs''), signedIn)"
    by (simp add: Let_def f st u)
  from A t B C show ?thesis by (intro conjI)
qed

text \<open>
  Claim C2 as the spec states it fails: a DELETE of the tenant's configuration that submits
  no anti-forgery token, in production, reaches the handler and succeeds; the guard is not
  in the chain of that route.
\<close>

theorem csrf_jira_delete_counterexample:
  "csrfToken (req DELETE [''jira'', ''configuration'']) = None
   \<and> serve (answering DeleteJiraConfiguration (Body (Code 200) ''deleted'')) production
        (req DELETE [''jira'', ''configuration'']) bound
     = ([(SentryRequestHandler, CallNext), (BodyParserUrlencoded, CallNext),
         (BodyParserJson, CallNext), (CookieSession, CallNext), (LogMiddleware, CallNext),
         (JiraHostSession, CallNext), (GithubClientMiddleware, CallNext),
         (MaintenanceCheck, CallNext), (VerifyJiraMiddleware, CallNext),
         (DeleteJiraConfiguration, Responded (Body (Code 200) ''deleted''))],
        Sent (Body (Code 200) ''deleted''), bound)"
  by code_simp

end
